theory Spec2Isabelle
  imports Main "HOL-Library.AList"
begin

section \<open>JavaScript values as the client sees them\<close>

text \<open>
  The response interceptor of \<^verbatim>\<open>KoreaFssFinlifeService.ts\<close> receives the body of a
  response as a value of type \<^verbatim>\<open>any\<close>, so the body is modelled untyped. An object
  is the list of its own properties, each name once in a well-formed object; a property is
  read with \<open>map_of\<close>, and the order in which JavaScript enumerates properties plays no
  role. Numbers are only passed through by this program (no arithmetic is done on them),
  so they are integers here.
\<close>

datatype jsvalue =
    JUndefined
  | JNull
  | JBoolean bool
  | JNumber int
  | JString string
  | JArray "jsvalue list"
  | JObject "(string \<times> jsvalue) list"

type_synonym jsobject = "(string \<times> jsvalue) list"

definition nullish :: "jsvalue \<Rightarrow> bool" where
  "nullish v = (v = JUndefined \<or> v = JNull)"

text \<open>
  \<open>own_property v k\<close> is the read \<^verbatim>\<open>v.k\<close> on a value that is neither
  \<^verbatim>\<open>undefined\<close> nor \<^verbatim>\<open>null\<close>. The names this program reads
  (\<^verbatim>\<open>result\<close>, \<^verbatim>\<open>err_cd\<close>, \<^verbatim>\<open>err_msg\<close>) are properties of no primitive
  wrapper, array or object prototype, so on anything but an object holding the name the
  read gives \<^verbatim>\<open>undefined\<close>.
\<close>

fun own_property :: "jsvalue \<Rightarrow> string \<Rightarrow> jsvalue" where
  "own_property (JObject fs) k = (case map_of fs k of None \<Rightarrow> JUndefined | Some v \<Rightarrow> v)"
| "own_property v k = JUndefined"

section \<open>Errors and rejected promises\<close>

text \<open>
  \<^verbatim>\<open>class KoreaFssFinlifeServiceError extends Error\<close> with its three constructor
  parameter properties. The fields are typed in the source, but the interceptor fills them
  from an untyped body, so they hold whatever the body holds.
\<close>

record KoreaFssFinlifeServiceError =
  code :: jsvalue
  message :: jsvalue
  requestParams :: jsobject

text \<open>
  What a call can be rejected with: the typed error thrown by the interceptor, the
  \<^verbatim>\<open>TypeError\<close> the runtime throws when a property of \<^verbatim>\<open>undefined\<close> or
  \<^verbatim>\<open>null\<close> is read, or whatever the HTTP transport rejected with (type \<open>'e\<close>).
\<close>

datatype 'e failure =
    ServiceError KoreaFssFinlifeServiceError
  | TypeError
  | TransportError 'e

text \<open>The plain read \<^verbatim>\<open>v.k\<close> and the optional read \<^verbatim>\<open>v?.k\<close>.\<close>

definition js_get :: "jsvalue \<Rightarrow> string \<Rightarrow> 'e failure + jsvalue" where
  "js_get v k = (if nullish v then Inl TypeError else Inr (own_property v k))"

definition js_get_opt :: "jsvalue \<Rightarrow> string \<Rightarrow> jsvalue" where
  "js_get_opt v k = (if nullish v then JUndefined else own_property v k)"

section \<open>The enumerations\<close>

text \<open>
  \<^verbatim>\<open>enum FinancialGroupCode\<close>. The source labels its five members in Korean; they are
  named here by their meaning, in the source's order, and \<open>FinancialGroupCode_value\<close>
  gives the string each member stands for.
\<close>

datatype FinancialGroupCode =
    BANK
  | CREDIT_FINANCE
  | SAVINGS_BANK
  | INSURANCE
  | FINANCIAL_INVESTMENT

fun FinancialGroupCode_value :: "FinancialGroupCode \<Rightarrow> string" where
  "FinancialGroupCode_value BANK = ''020000''"
| "FinancialGroupCode_value CREDIT_FINANCE = ''030200''"
| "FinancialGroupCode_value SAVINGS_BANK = ''030300''"
| "FinancialGroupCode_value INSURANCE = ''050000''"
| "FinancialGroupCode_value FINANCIAL_INVESTMENT = ''060000''"

text \<open>\<^verbatim>\<open>enum ApiResponseCode\<close>, member for member.\<close>

datatype ApiResponseCode =
    SUCCESS
  | INVALID_AUTH_KEY
  | SUSPENDED_AUTH_KEY
  | DELETED_AUTH_KEY
  | SAMPLE_AUTH_KEY
  | EXCEEDED_DAILY_SEARCH_LIMIT
  | INVALID_IP
  | MISSING_REQUEST_PARAMETER
  | INVALID_REQUEST_PARAMETER
  | SYSTEM_ERROR

fun ApiResponseCode_value :: "ApiResponseCode \<Rightarrow> string" where
  "ApiResponseCode_value SUCCESS = ''000''"
| "ApiResponseCode_value INVALID_AUTH_KEY = ''010''"
| "ApiResponseCode_value SUSPENDED_AUTH_KEY = ''011''"
| "ApiResponseCode_value DELETED_AUTH_KEY = ''012''"
| "ApiResponseCode_value SAMPLE_AUTH_KEY = ''013''"
| "ApiResponseCode_value EXCEEDED_DAILY_SEARCH_LIMIT = ''020''"
| "ApiResponseCode_value INVALID_IP = ''021''"
| "ApiResponseCode_value MISSING_REQUEST_PARAMETER = ''100''"
| "ApiResponseCode_value INVALID_REQUEST_PARAMETER = ''101''"
| "ApiResponseCode_value SYSTEM_ERROR = ''900''"

definition ApiResponseCode_members :: "ApiResponseCode list" where
  "ApiResponseCode_members =
     [SUCCESS, INVALID_AUTH_KEY, SUSPENDED_AUTH_KEY, DELETED_AUTH_KEY, SAMPLE_AUTH_KEY,
      EXCEEDED_DAILY_SEARCH_LIMIT, INVALID_IP, MISSING_REQUEST_PARAMETER,
      INVALID_REQUEST_PARAMETER, SYSTEM_ERROR]"

section \<open>The HTTP client the service is built on\<close>

text \<open>
  The service uses the axios library, which is not part of the repository. What the
  service relies on is modelled from the library's documented behaviour:
  \<^item> a request configuration, of which the service sets \<^verbatim>\<open>baseURL\<close>, \<^verbatim>\<open>url\<close>,
    \<^verbatim>\<open>method\<close> (the field \<open>http_method\<close>) and \<^verbatim>\<open>params\<close>;
  \<^item> \<open>mergeConfig\<close>: the configuration of a request is the instance's defaults merged
    with the call's own configuration, where \<^verbatim>\<open>url\<close> and \<^verbatim>\<open>method\<close> come from the
    call, \<^verbatim>\<open>baseURL\<close> from the call if it sets one, and \<^verbatim>\<open>params\<close> is the defaults'
    object with the call's properties assigned over it (the parameter values of this
    program are strings, numbers and \<^verbatim>\<open>undefined\<close>, which the merge assigns as they
    are);
  \<^item> the serialised query string leaves out every parameter whose value is
    \<^verbatim>\<open>undefined\<close> or \<^verbatim>\<open>null\<close> (\<open>serialized_params\<close>; percent-encoding is not
    modelled);
  \<^item> the response handed to an interceptor carries the body as \<^verbatim>\<open>data\<close> and the merged
    request configuration as \<^verbatim>\<open>config\<close>.
\<close>

record AxiosRequestConfig =
  baseURL :: "string option"
  url :: "string option"
  http_method :: "string option"
  params :: jsobject

record AxiosResponse =
  data :: jsvalue
  config :: AxiosRequestConfig

definition merge_objects :: "jsobject \<Rightarrow> jsobject \<Rightarrow> jsobject" where
  "merge_objects a b = foldl (\<lambda>result (k, v). AList.update k v result) [] (a @ b)"

definition mergeConfig :: "AxiosRequestConfig \<Rightarrow> AxiosRequestConfig \<Rightarrow> AxiosRequestConfig" where
  "mergeConfig config1 config2 =
     \<lparr>baseURL = (case baseURL config2 of None \<Rightarrow> baseURL config1 | Some b \<Rightarrow> Some b),
      url = url config2,
      http_method = http_method config2,
      params = merge_objects (params config1) (params config2)\<rparr>"

definition serialized_params :: "AxiosRequestConfig \<Rightarrow> jsobject" where
  "serialized_params cfg = filter (\<lambda>(k, v). \<not> nullish v) (params cfg)"

text \<open>
  The transport (the network and the server behind it) is a parameter: given the request
  and the state of the world it either rejects with a transport error or resolves with a
  response body, and leaves a new state of the world.
\<close>

type_synonym ('e, 'w) adapter = "AxiosRequestConfig \<Rightarrow> 'w \<Rightarrow> ('e + jsvalue) \<times> 'w"

section \<open>KoreaFssFinlifeService\<close>

text \<open>\<^verbatim>\<open>process.env\<close>: a variable is a string or is not set.\<close>

type_synonym process_env = "string \<Rightarrow> string option"

definition env_get :: "process_env \<Rightarrow> string \<Rightarrow> jsvalue" where
  "env_get env name = (case env name of None \<Rightarrow> JUndefined | Some s \<Rightarrow> JString s)"

text \<open>
  The service holds one axios instance, given by the defaults it was created with. The
  instance has exactly one response interceptor, \<open>response_interceptor\<close> below.
\<close>

record KoreaFssFinlifeService =
  api :: AxiosRequestConfig

text \<open>The constructor, lines 134 to 141: \<^verbatim>\<open>axios.create({ baseURL, params: { auth } })\<close>.\<close>

definition KoreaFssFinlifeService_new :: "process_env \<Rightarrow> KoreaFssFinlifeService" where
  "KoreaFssFinlifeService_new env =
     \<lparr>api = \<lparr>baseURL = Some ''https://finlife.fss.or.kr/finlifeapi'',
              url = None,
              http_method = None,
              params = [(''auth'', env_get env ''FSS_OPEN_API_KEY'')]\<rparr>\<rparr>"

text \<open>
  The response interceptor, lines 142 to 152. The guard reads with optional chaining and
  compares with \<^verbatim>\<open>!==\<close>; the arguments of the error are then read with plain property
  access, left to right, and any of these reads can throw before the error is built.
\<close>

definition response_interceptor :: "AxiosResponse \<Rightarrow> 'e failure + AxiosResponse" where
  "response_interceptor response =
     (if js_get_opt (js_get_opt (data response) ''result'') ''err_cd''
           \<noteq> JString (ApiResponseCode_value SUCCESS)
      then
        (case js_get (data response) ''result'' of
           Inl e \<Rightarrow> Inl e
         | Inr result1 \<Rightarrow>
        (case js_get result1 ''err_cd'' of
           Inl e \<Rightarrow> Inl e
         | Inr err_cd \<Rightarrow>
        (case js_get (data response) ''result'' of
           Inl e \<Rightarrow> Inl e
         | Inr result2 \<Rightarrow>
        (case js_get result2 ''err_msg'' of
           Inl e \<Rightarrow> Inl e
         | Inr err_msg \<Rightarrow>
             Inl (ServiceError
                    \<lparr>code = err_cd, message = err_msg,
                     requestParams = params (config response)\<rparr>)))))
      else Inr response)"

text \<open>
  \<^verbatim>\<open>this.api.get(path, { params })\<close>: the request is the merged configuration; the
  transport is run on it; a resolved response goes through the interceptor.
\<close>

definition axios_request_config :: "AxiosRequestConfig \<Rightarrow> string \<Rightarrow> jsobject \<Rightarrow> AxiosRequestConfig" where
  "axios_request_config defaults path ps =
     mergeConfig defaults \<lparr>baseURL = None, url = Some path, http_method = Some ''get'', params = ps\<rparr>"

definition axios_get ::
  "AxiosRequestConfig \<Rightarrow> ('e, 'w) adapter \<Rightarrow> string \<Rightarrow> jsobject \<Rightarrow> 'w
    \<Rightarrow> ('e failure + AxiosResponse) \<times> 'w" where
  "axios_get defaults adapter path ps w =
     (let cfg = axios_request_config defaults path ps in
      case adapter cfg w of
        (Inl e, w') \<Rightarrow> (Inl (TransportError e), w')
      | (Inr body, w') \<Rightarrow> (response_interceptor \<lparr>data = body, config = cfg\<rparr>, w'))"

text \<open>
  The argument object of \<^verbatim>\<open>getFinancialCompanies\<close>: \<^verbatim>\<open>groupCode\<close> is required,
  \<^verbatim>\<open>financeCode\<close> and \<^verbatim>\<open>pageNo\<close> may be left out.
\<close>

record GetFinancialCompaniesArgs =
  groupCode :: FinancialGroupCode
  financeCode :: "string option"
  pageNo :: "int option"

text \<open>The \<^verbatim>\<open>params\<close> object of lines 190 to 194, with the default \<^verbatim>\<open>pageNo = 1\<close>.\<close>

definition getFinancialCompanies_params :: "GetFinancialCompaniesArgs \<Rightarrow> jsobject" where
  "getFinancialCompanies_params args =
     [(''topFinGrpNo'', JString (FinancialGroupCode_value (groupCode args))),
      (''financeCd'', (case financeCode args of None \<Rightarrow> JUndefined | Some s \<Rightarrow> JString s)),
      (''pageNo'', JNumber (case pageNo args of None \<Rightarrow> 1 | Some n \<Rightarrow> n))]"

text \<open>The request that a call of \<^verbatim>\<open>getFinancialCompanies\<close> hands to the transport.\<close>

definition getFinancialCompanies_request ::
  "KoreaFssFinlifeService \<Rightarrow> GetFinancialCompaniesArgs \<Rightarrow> AxiosRequestConfig" where
  "getFinancialCompanies_request svc args =
     axios_request_config (api svc) ''/companySearch.json'' (getFinancialCompanies_params args)"

text \<open>\<^verbatim>\<open>getFinancialCompanies\<close>, lines 159 to 197.\<close>

definition getFinancialCompanies ::
  "KoreaFssFinlifeService \<Rightarrow> ('e, 'w) adapter \<Rightarrow> GetFinancialCompaniesArgs \<Rightarrow> 'w
    \<Rightarrow> ('e failure + jsvalue) \<times> 'w" where
  "getFinancialCompanies svc adapter args w =
     (case axios_get (api svc) adapter ''/companySearch.json''
             (getFinancialCompanies_params args) w of
        (Inl e, w') \<Rightarrow> (Inl e, w')
      | (Inr res, w') \<Rightarrow> (js_get (data res) ''result'', w'))"

text \<open>
  Consecutive calls on one service: each call runs against the world the previous one
  left. \<open>recording\<close> wraps a transport so that the world also keeps, in order, every
  request the transport was handed.
\<close>

fun consecutive_calls ::
  "KoreaFssFinlifeService \<Rightarrow> ('e, 'w) adapter \<Rightarrow> GetFinancialCompaniesArgs list \<Rightarrow> 'w
    \<Rightarrow> ('e failure + jsvalue) list \<times> 'w" where
  "consecutive_calls svc adapter [] w = ([], w)"
| "consecutive_calls svc adapter (args # rest) w =
     (case getFinancialCompanies svc adapter args w of
        (r, w') \<Rightarrow>
          (case consecutive_calls svc adapter rest w' of
             (rs, w'') \<Rightarrow> (r # rs, w'')))"

definition recording :: "('e, 'w) adapter \<Rightarrow> ('e, AxiosRequestConfig list \<times> 'w) adapter" where
  "recording adapter cfg lw =
     (case lw of (log, w) \<Rightarrow>
        (case adapter cfg w of (r, w') \<Rightarrow> (r, (log @ [cfg], w'))))"

section \<open>The join of the example driver\<close>

text \<open>
  The records of the two lists, as the interfaces \<^verbatim>\<open>FinancialCompany\<close> and
  \<^verbatim>\<open>FinancialCompanyOptions\<close> declare them. Both interfaces start with the fields
  \<^verbatim>\<open>dcls_month\<close> and \<^verbatim>\<open>fin_co_no\<close>; the common part is a parent record, so that
  \<open>fin_co_no\<close> reads the company code of either.
\<close>

record CompanyKey =
  dcls_month :: string
  fin_co_no :: string

record FinancialCompany = CompanyKey +
  kor_co_nm :: string
  dcls_chrg_man :: string
  homp_url :: string
  cal_tel :: string

record FinancialCompanyOptions = CompanyKey +
  area_cd :: string
  area_nm :: string
  exis_yn :: string

text \<open>
  What a read \<^verbatim>\<open>object[key]\<close> on a plain object gives, by the rules of the language:
  the value of the object's own property of that name; otherwise, the member of that name
  that every plain object inherits from \<^verbatim>\<open>Object.prototype\<close>, when there is one (a
  function such as \<^verbatim>\<open>constructor\<close> or \<^verbatim>\<open>toString\<close>, or the prototype itself for
  \<^verbatim>\<open>__proto__\<close>; \<open>Inherited name\<close> stands for it, a value that is neither
  \<^verbatim>\<open>undefined\<close> nor an element of the collection); otherwise \<^verbatim>\<open>undefined\<close>.
\<close>

datatype 'a property_value =
    Own 'a
  | Inherited string
  | Undefined

definition Object_prototype_names :: "string list" where
  "Object_prototype_names =
     [''constructor'', ''__defineGetter__'', ''__defineSetter__'', ''hasOwnProperty'',
      ''__lookupGetter__'', ''__lookupSetter__'', ''isPrototypeOf'', ''propertyIsEnumerable'',
      ''toString'', ''valueOf'', ''__proto__'', ''toLocaleString'']"

definition object_get :: "(string \<times> 'a) list \<Rightarrow> string \<Rightarrow> 'a property_value" where
  "object_get object key =
     (case map_of object key of
        Some v \<Rightarrow> Own v
      | None \<Rightarrow> if key \<in> set Object_prototype_names then Inherited key else Undefined)"

text \<open>
  An element of \<^verbatim>\<open>bankList\<close>: the object \<^verbatim>\<open>{ ...bank, options: ... }\<close>, that is all
  fields of the base record and the field \<^verbatim>\<open>options\<close>, which holds what the read of
  the grouping object gave.
\<close>

record BankEntry = FinancialCompany +
  options :: "FinancialCompanyOptions property_value"

text \<open>
  \<^verbatim>\<open>keyBy(collection, iteratee)\<close> of the lodash library, from its documentation: it goes
  through the collection in order and assigns each element to the result object, a plain
  object, under the key the iteratee gives for it. The element becomes an own property of
  the object whatever the key is; assigning to a key the object already has replaces the
  value. The object is the list of its own properties.
\<close>

definition keyBy :: "'a list \<Rightarrow> ('a \<Rightarrow> string) \<Rightarrow> (string \<times> 'a) list" where
  "keyBy collection iteratee =
     foldl (\<lambda>result v. AList.update (iteratee v) v result) [] collection"

text \<open>
  Lines 16 to 21 of the driver; \<^verbatim>\<open>optionsByCompanyCode[bank.fin_co_no]\<close> is a read on
  the plain object that \<^verbatim>\<open>keyBy\<close> returned.
\<close>

definition bankList :: "FinancialCompany list \<Rightarrow> FinancialCompanyOptions list \<Rightarrow> BankEntry list" where
  "bankList baseList optionList =
     (let optionsByCompanyCode = keyBy optionList fin_co_no in
      map (\<lambda>bank. FinancialCompany.extend bank
                    (BankEntry.fields (object_get optionsByCompanyCode (fin_co_no bank))))
        baseList)"

section \<open>Example inputs\<close>

text \<open>
  Concrete inputs at which the theorems below are instantiated: an environment that sets
  the key, a transport that always resolves with one body, the success and the
  invalid-key responses of the specification's two scenarios (the latter with the message
  under the field name of the declared envelope, \<^verbatim>\<open>err_message\<close>), two rejections
  as the interceptor reads them, and the lists of a small join.
\<close>

definition example_env :: process_env where
  "example_env name = (if name = ''FSS_OPEN_API_KEY'' then Some ''test-key'' else None)"

definition constant_server :: "jsvalue \<Rightarrow> (unit, unit) adapter" where
  "constant_server body cfg w = (Inr body, w)"

definition example_success_result :: jsvalue where
  "example_success_result =
     JObject
       [(''err_cd'', JString ''000''),
        (''err_message'', JString ''ok''),
        (''total_count'', JNumber 1),
        (''max_page_no'', JNumber 1),
        (''now_page_no'', JNumber 1),
        (''baseList'',
           JArray [JObject [(''fin_co_no'', JString ''0010001''), (''kor_co_nm'', JString ''A Bank'')]]),
        (''optionList'',
           JArray [JObject [(''fin_co_no'', JString ''0010001''), (''area_cd'', JString ''A'')]])]"

definition example_invalid_key_body :: jsvalue where
  "example_invalid_key_body =
     JObject
       [(''result'',
           JObject [(''err_cd'', JString ''010''), (''err_message'', JString ''invalid key'')])]"


definition example_base :: "string \<Rightarrow> string \<Rightarrow> FinancialCompany" where
  "example_base c n =
     \<lparr>dcls_month = ''202401'', fin_co_no = c, kor_co_nm = n, dcls_chrg_man = ''clerk'',
      homp_url = ''https://example.org'', cal_tel = ''15880000''\<rparr>"

definition example_option :: "string \<Rightarrow> string \<Rightarrow> FinancialCompanyOptions" where
  "example_option c a =
     \<lparr>dcls_month = ''202401'', fin_co_no = c, area_cd = a, area_nm = ''Seoul'', exis_yn = ''Y''\<rparr>"

section \<open>Facts about objects and the merged request\<close>

lemma map_of_foldl_update:
  "map_of (foldl (\<lambda>result (k, v). AList.update k v result) acc xs) =
     map_of acc ++ map_of (rev xs)"
proof (induction xs arbitrary: acc)
  case Nil
  show ?case by simp
next
  case (Cons x xs)
  obtain k v where x: "x = (k, v)" by (cases x)
  have "map_of (foldl (\<lambda>result (k, v). AList.update k v result) acc (x # xs)) =
          map_of (AList.update k v acc) ++ map_of (rev xs)"
    by (simp add: x Cons.IH)
  also have "\<dots> = (map_of acc)(k \<mapsto> v) ++ map_of (rev xs)"
    by (simp only: update_conv')
  also have "\<dots> = map_of acc ++ ([k \<mapsto> v] ++ map_of (rev xs))"
    by (simp add: map_add_def fun_eq_iff split: option.splits)
  also have "\<dots> = map_of acc ++ map_of (rev (x # xs))"
    by (simp add: x)
  finally show ?case .
qed

lemma distinct_foldl_update:
  "distinct (map fst acc) \<Longrightarrow>
   distinct (map fst (foldl (\<lambda>result (k, v). AList.update k v result) acc xs))"
  by (induction xs arbitrary: acc) (auto simp: distinct_update)

lemma map_of_merge_objects:
  "map_of (merge_objects a b) k =
     (case map_of (rev b) k of Some v \<Rightarrow> Some v | None \<Rightarrow> map_of (rev a) k)"
  by (simp add: merge_objects_def map_of_foldl_update map_add_def split: option.splits)

lemma distinct_merge_objects: "distinct (map fst (merge_objects a b))"
  by (simp add: merge_objects_def distinct_foldl_update)

lemma map_of_filter_values:
  "distinct (map fst ps) \<Longrightarrow>
   map_of (filter (\<lambda>(k, v). P v) ps) k =
     (case map_of ps k of None \<Rightarrow> None | Some v \<Rightarrow> if P v then Some v else None)"
proof (induction ps)
  case Nil
  show ?case by simp
next
  case (Cons p ps)
  obtain k' v' where p: "p = (k', v')" by (cases p)
  from Cons.prems have notin: "k' \<notin> fst ` set ps" and d: "distinct (map fst ps)"
    by (simp_all add: p)
  from notin have none: "map_of ps k' = None"
    by (simp add: map_of_eq_None_iff)
  show ?case
    using Cons.IH [OF d] none by (auto simp: p split: option.splits)
qed

lemma map_of_serialized_params:
  "distinct (map fst (params cfg)) \<Longrightarrow>
   map_of (serialized_params cfg) k =
     (case map_of (params cfg) k of
        None \<Rightarrow> None
      | Some v \<Rightarrow> if nullish v then None else Some v)"
  unfolding serialized_params_def
  by (simp add: map_of_filter_values split: option.splits)

lemma params_request:
  "params (getFinancialCompanies_request svc args) =
     merge_objects (params (api svc)) (getFinancialCompanies_params args)"
  by (simp add: getFinancialCompanies_request_def axios_request_config_def mergeConfig_def)

lemma distinct_request_params:
  "distinct (map fst (params (getFinancialCompanies_request svc args)))"
  by (simp add: params_request distinct_merge_objects)

lemma map_of_call_params:
  "map_of (rev (getFinancialCompanies_params args)) k =
     (if k = ''topFinGrpNo'' then Some (JString (FinancialGroupCode_value (groupCode args)))
      else if k = ''financeCd''
        then Some (case financeCode args of None \<Rightarrow> JUndefined | Some s \<Rightarrow> JString s)
      else if k = ''pageNo'' then Some (JNumber (case pageNo args of None \<Rightarrow> 1 | Some n \<Rightarrow> n))
      else None)"
  by (simp add: getFinancialCompanies_params_def)

lemma request_topFinGrpNo:
  "map_of (params (getFinancialCompanies_request svc args)) ''topFinGrpNo'' =
     Some (JString (FinancialGroupCode_value (groupCode args)))"
  by (simp add: params_request map_of_merge_objects map_of_call_params)

lemma request_financeCd:
  "map_of (params (getFinancialCompanies_request svc args)) ''financeCd'' =
     Some (case financeCode args of None \<Rightarrow> JUndefined | Some s \<Rightarrow> JString s)"
  by (simp add: params_request map_of_merge_objects map_of_call_params)

lemma request_pageNo:
  "map_of (params (getFinancialCompanies_request svc args)) ''pageNo'' =
     Some (JNumber (case pageNo args of None \<Rightarrow> 1 | Some n \<Rightarrow> n))"
  by (simp add: params_request map_of_merge_objects map_of_call_params)

lemma request_auth:
  "map_of (params (getFinancialCompanies_request (KoreaFssFinlifeService_new env) args)) ''auth'' =
     Some (env_get env ''FSS_OPEN_API_KEY'')"
  by (simp add: params_request map_of_merge_objects map_of_call_params
      KoreaFssFinlifeService_new_def)

lemma params_request_new:
  "params (getFinancialCompanies_request (KoreaFssFinlifeService_new env) args) =
     [(''auth'', env_get env ''FSS_OPEN_API_KEY''),
      (''topFinGrpNo'', JString (FinancialGroupCode_value (groupCode args))),
      (''financeCd'', (case financeCode args of None \<Rightarrow> JUndefined | Some s \<Rightarrow> JString s)),
      (''pageNo'', JNumber (case pageNo args of None \<Rightarrow> 1 | Some n \<Rightarrow> n))]"
  by (simp add: params_request merge_objects_def getFinancialCompanies_params_def
      KoreaFssFinlifeService_new_def)

lemma serialized_auth:
  "env ''FSS_OPEN_API_KEY'' = Some key \<Longrightarrow>
   map_of (serialized_params (getFinancialCompanies_request (KoreaFssFinlifeService_new env) args))
     ''auth'' = Some (JString key)"
  by (simp add: map_of_serialized_params distinct_request_params request_auth env_get_def
      nullish_def)

section \<open>Facts about the interceptor and the call\<close>

lemma interceptor_rejects:
  assumes "\<not> nullish (own_property (data response) ''result'')"
    and "own_property (own_property (data response) ''result'') ''err_cd'' \<noteq> JString ''000''"
  shows "response_interceptor response =
           Inl (ServiceError
                 \<lparr>code = own_property (own_property (data response) ''result'') ''err_cd'',
                  message = own_property (own_property (data response) ''result'') ''err_msg'',
                  requestParams = params (config response)\<rparr>)"
proof -
  from assms(1) have "\<not> nullish (data response)"
    by (auto simp: nullish_def)
  with assms show ?thesis
    by (simp add: response_interceptor_def js_get_def js_get_opt_def)
qed

lemma interceptor_accepts:
  assumes "own_property (own_property (data response) ''result'') ''err_cd'' = JString ''000''"
  shows "response_interceptor response = Inr response"
proof -
  have "\<not> nullish (own_property (data response) ''result'')"
    using assms by (auto simp: nullish_def)
  moreover from this have "\<not> nullish (data response)"
    by (auto simp: nullish_def)
  ultimately show ?thesis
    using assms by (simp add: response_interceptor_def js_get_opt_def)
qed

lemma interceptor_malformed:
  assumes "nullish (data response) \<or> nullish (own_property (data response) ''result'')"
  shows "response_interceptor response = Inl TypeError"
  using assms by (auto simp: response_interceptor_def js_get_def js_get_opt_def nullish_def)

text \<open>
  A call hands the transport exactly \<open>getFinancialCompanies_request\<close>, and what the
  transport resolves with goes through the interceptor before \<^verbatim>\<open>res.data.result\<close> is
  read.
\<close>

lemma getFinancialCompanies_unfold:
  "getFinancialCompanies svc adapter args w =
     (case adapter (getFinancialCompanies_request svc args) w of
        (Inl e, w') \<Rightarrow> (Inl (TransportError e), w')
      | (Inr body, w') \<Rightarrow>
          (case response_interceptor
                  \<lparr>data = body, config = getFinancialCompanies_request svc args\<rparr> of
             Inl e \<Rightarrow> (Inl e, w')
           | Inr res \<Rightarrow> (js_get (data res) ''result'', w')))"
  by (simp add: getFinancialCompanies_def axios_get_def getFinancialCompanies_request_def
      split: prod.splits sum.splits)

lemma getFinancialCompanies_rejects:
  assumes "adapter (getFinancialCompanies_request svc args) w = (Inr body, w')"
    and "\<not> nullish (own_property body ''result'')"
    and "own_property (own_property body ''result'') ''err_cd'' \<noteq> JString ''000''"
  shows "getFinancialCompanies svc adapter args w =
           (Inl (ServiceError
                 \<lparr>code = own_property (own_property body ''result'') ''err_cd'',
                  message = own_property (own_property body ''result'') ''err_msg'',
                  requestParams = params (getFinancialCompanies_request svc args)\<rparr>), w')"
  using assms(2,3) by (simp add: getFinancialCompanies_unfold assms(1) interceptor_rejects)

lemma getFinancialCompanies_recording:
  "getFinancialCompanies svc (recording adapter) args (log, w) =
     (case getFinancialCompanies svc adapter args w of
        (r, w') \<Rightarrow> (r, (log @ [getFinancialCompanies_request svc args], w')))"
  by (simp add: getFinancialCompanies_unfold recording_def split: prod.splits sum.splits)

lemma getFinancialCompanies_sent:
  "fst (snd (getFinancialCompanies svc (recording adapter) args ([], w))) =
     [getFinancialCompanies_request svc args]"
  by (simp add: getFinancialCompanies_recording split: prod.splits)

lemma consecutive_calls_recording:
  "fst (snd (consecutive_calls svc (recording adapter) calls (log, w))) =
     log @ map (getFinancialCompanies_request svc) calls"
proof (induction calls arbitrary: log w)
  case Nil
  show ?case by simp
next
  case (Cons args rest)
  obtain r w' where g: "getFinancialCompanies svc adapter args w = (r, w')"
    by (cases "getFinancialCompanies svc adapter args w")
  obtain rs lw where c: "consecutive_calls svc (recording adapter) rest
      (log @ [getFinancialCompanies_request svc args], w') = (rs, lw)"
    by (cases "consecutive_calls svc (recording adapter) rest
      (log @ [getFinancialCompanies_request svc args], w')")
  show ?case
    using Cons.IH [of "log @ [getFinancialCompanies_request svc args]" w']
    by (simp add: getFinancialCompanies_recording g c)
qed

section \<open>Facts about the join\<close>

lemma map_of_foldl_keyBy:
  "map_of (foldl (\<lambda>result v. AList.update (f v) v result) acc xs) k =
     (if filter (\<lambda>v. f v = k) xs = [] then map_of acc k
      else Some (last (filter (\<lambda>v. f v = k) xs)))"
  by (induction xs arbitrary: acc) (simp_all add: update_conv')

lemma distinct_foldl_keyBy:
  "distinct (map fst acc) \<Longrightarrow>
   distinct (map fst (foldl (\<lambda>result v. AList.update (f v) v result) acc xs))"
  by (induction xs arbitrary: acc) (simp_all add: distinct_update)

lemma map_of_keyBy:
  "map_of (keyBy xs f) k =
     (if filter (\<lambda>v. f v = k) xs = [] then None else Some (last (filter (\<lambda>v. f v = k) xs)))"
  by (simp add: keyBy_def map_of_foldl_keyBy)

lemma distinct_keyBy: "distinct (map fst (keyBy xs f))"
  by (simp add: keyBy_def distinct_foldl_keyBy)

lemma filter_key_distinct:
  "distinct (map f xs) \<Longrightarrow> x \<in> set xs \<Longrightarrow> filter (\<lambda>v. f v = f x) xs = [x]"
  by (induction xs) (auto simp: filter_empty_conv image_iff)

lemma map_of_keyBy_distinct:
  assumes "distinct (map f xs)"
  shows "map_of (keyBy xs f) k = Some x \<longleftrightarrow> x \<in> set xs \<and> f x = k"
proof
  assume "map_of (keyBy xs f) k = Some x"
  then have ne: "filter (\<lambda>v. f v = k) xs \<noteq> []" and l: "last (filter (\<lambda>v. f v = k) xs) = x"
    by (simp_all add: map_of_keyBy split: if_splits)
  from ne have "last (filter (\<lambda>v. f v = k) xs) \<in> set (filter (\<lambda>v. f v = k) xs)"
    by (rule last_in_set)
  with l show "x \<in> set xs \<and> f x = k" by simp
next
  assume "x \<in> set xs \<and> f x = k"
  then have "filter (\<lambda>v. f v = k) xs = [x]"
    using filter_key_distinct [OF assms, of x] by auto
  then show "map_of (keyBy xs f) k = Some x"
    by (simp add: map_of_keyBy)
qed

lemma truncate_extend: "FinancialCompany.truncate (FinancialCompany.extend bank m) = bank"
  by (simp add: FinancialCompany.defs CompanyKey.defs)

lemma options_extend: "options (FinancialCompany.extend bank (BankEntry.fields v)) = v"
  by (simp add: FinancialCompany.defs BankEntry.defs CompanyKey.defs)

section \<open>The claims about the client\<close>

text \<open>
  Claim C1 (fails on the code). The claim: for every response whose status code is not
  \<^verbatim>\<open>"000"\<close>, \<^verbatim>\<open>getFinancialCompanies\<close> fails with a
  \<^verbatim>\<open>KoreaFssFinlifeServiceError\<close> that exposes that code, the message string the server
  provided and the request's query parameters, and returns no payload. The code at the
  invalid-key response \<^verbatim>\<open>{ result: { err_cd: "010", err_message: "invalid key" } }\<close>,
  whose message is under the field name that the interface \<^verbatim>\<open>ApiResponse\<close> declares:
  the call fails with the typed error, the code is \<^verbatim>\<open>"010"\<close> and the parameters are
  those of the request, but the message of the error is \<^verbatim>\<open>undefined\<close>, not
  \<^verbatim>\<open>"invalid key"\<close>, because the interceptor reads the field \<^verbatim>\<open>err_msg\<close>.
  (Lemma \<open>getFinancialCompanies_rejects\<close> above is the general fact: the error carries the
  code, the value of \<^verbatim>\<open>err_msg\<close> and the merged parameters.)
\<close>

theorem invalid_key_message_lost:
  "getFinancialCompanies (KoreaFssFinlifeService_new example_env)
       (constant_server example_invalid_key_body)
       \<lparr>groupCode = BANK, financeCode = None, pageNo = None\<rparr> ()
     = (Inl (ServiceError
              \<lparr>code = JString ''010'',
               message = JUndefined,
               requestParams =
                 [(''auth'', JString ''test-key''), (''topFinGrpNo'', JString ''020000''),
                  (''financeCd'', JUndefined), (''pageNo'', JNumber 1)]\<rparr>), ())
   \<and> own_property (own_property example_invalid_key_body ''result'') ''err_message''
       = JString ''invalid key''"
proof -
  have a: "constant_server example_invalid_key_body
             (getFinancialCompanies_request (KoreaFssFinlifeService_new example_env)
                \<lparr>groupCode = BANK, financeCode = None, pageNo = None\<rparr>) ()
           = (Inr example_invalid_key_body, ())"
    by (simp add: constant_server_def)
  have b: "\<not> nullish (own_property example_invalid_key_body ''result'')"
    by (simp add: example_invalid_key_body_def nullish_def)
  have c: "own_property (own_property example_invalid_key_body ''result'') ''err_cd''
             \<noteq> JString ''000''"
    by (simp add: example_invalid_key_body_def)
  show ?thesis
    using getFinancialCompanies_rejects
      [where adapter = "constant_server example_invalid_key_body"
         and svc = "KoreaFssFinlifeService_new example_env"
         and args = "\<lparr>groupCode = BANK, financeCode = None, pageNo = None\<rparr>"
         and w = "()", OF a b c]
    by (simp add: params_request_new example_invalid_key_body_def example_env_def env_get_def)
qed

text \<open>
  Claim C2. Whenever the transport resolves with a body whose \<^verbatim>\<open>result.err_cd\<close> is
  \<^verbatim>\<open>"000"\<close>, \<^verbatim>\<open>getFinancialCompanies\<close> returns that body's \<^verbatim>\<open>result\<close> itself:
  the wrapper is removed and nothing else is touched, so \<^verbatim>\<open>total_count\<close>,
  \<^verbatim>\<open>max_page_no\<close>, \<^verbatim>\<open>now_page_no\<close>, \<^verbatim>\<open>baseList\<close> and \<^verbatim>\<open>optionList\<close> read
  from the returned value are what the server put there, lists in the server's order.
  This holds for every service, every argument object (so every group code) and every
  transport.
\<close>

theorem success_returns_result_unchanged:
  assumes "adapter (getFinancialCompanies_request svc args) w = (Inr body, w')"
    and "own_property (own_property body ''result'') ''err_cd'' = JString ''000''"
  shows "getFinancialCompanies svc adapter args w = (Inr (own_property body ''result''), w')"
proof -
  have "\<not> nullish body"
    using assms(2) by (auto simp: nullish_def)
  then show ?thesis
    using assms(2)
    by (simp add: getFinancialCompanies_unfold assms(1) interceptor_accepts js_get_def)
qed

theorem success_returns_result_unchanged_witness:
  "getFinancialCompanies (KoreaFssFinlifeService_new example_env)
       (constant_server (JObject [(''result'', example_success_result)]))
       \<lparr>groupCode = BANK, financeCode = None, pageNo = Some 1\<rparr> ()
     = (Inr example_success_result, ())"
proof -
  have a: "constant_server (JObject [(''result'', example_success_result)])
             (getFinancialCompanies_request (KoreaFssFinlifeService_new example_env)
                \<lparr>groupCode = BANK, financeCode = None, pageNo = Some 1\<rparr>) ()
           = (Inr (JObject [(''result'', example_success_result)]), ())"
    by (simp add: constant_server_def)
  have b: "own_property (own_property (JObject [(''result'', example_success_result)]) ''result'')
             ''err_cd'' = JString ''000''"
    by (simp add: example_success_result_def)
  show ?thesis
    using success_returns_result_unchanged
      [where adapter = "constant_server (JObject [(''result'', example_success_result)])"
         and svc = "KoreaFssFinlifeService_new example_env"
         and args = "\<lparr>groupCode = BANK, financeCode = None, pageNo = Some 1\<rparr>"
         and w = "()", OF a b]
    by simp
qed

text \<open>
  Claim C4. Make one call of \<^verbatim>\<open>getFinancialCompanies\<close> over any transport and record
  what the transport is handed. It is handed exactly one request. When the argument
  \<^verbatim>\<open>pageNo\<close> is left out, the parameter \<^verbatim>\<open>pageNo\<close> of that request is 1; when the
  argument is \<open>n\<close>, it is \<open>n\<close>, for every \<open>n\<close>; the serialised query carries the same
  value.
\<close>

theorem pageNo_default_and_passthrough:
  "map (\<lambda>cfg. (map_of (params cfg) ''pageNo'', map_of (serialized_params cfg) ''pageNo''))
     (fst (snd (getFinancialCompanies svc (recording adapter) (args\<lparr>pageNo := None\<rparr>) ([], w))))
     = [(Some (JNumber 1), Some (JNumber 1))] \<and>
   map (\<lambda>cfg. (map_of (params cfg) ''pageNo'', map_of (serialized_params cfg) ''pageNo''))
     (fst (snd (getFinancialCompanies svc (recording adapter) (args\<lparr>pageNo := Some n\<rparr>) ([], w))))
     = [(Some (JNumber n), Some (JNumber n))]"
  by (simp add: getFinancialCompanies_sent request_pageNo map_of_serialized_params
      distinct_request_params nullish_def)

theorem pageNo_default_and_passthrough_witness:
  "map (\<lambda>cfg. map_of (params cfg) ''pageNo'')
     (fst (snd (getFinancialCompanies (KoreaFssFinlifeService_new example_env)
        (recording (constant_server (JObject [(''result'', example_success_result)])))
        \<lparr>groupCode = INSURANCE, financeCode = None, pageNo = None\<rparr> ([], ()))))
     = [Some (JNumber 1)] \<and>
   map (\<lambda>cfg. map_of (params cfg) ''pageNo'')
     (fst (snd (getFinancialCompanies (KoreaFssFinlifeService_new example_env)
        (recording (constant_server (JObject [(''result'', example_success_result)])))
        \<lparr>groupCode = INSURANCE, financeCode = None, pageNo = Some 3\<rparr> ([], ()))))
     = [Some (JNumber 3)]"
proof -
  define sent where "sent = (\<lambda>p. fst (snd (getFinancialCompanies
        (KoreaFssFinlifeService_new example_env)
        (recording (constant_server (JObject [(''result'', example_success_result)])))
        \<lparr>groupCode = INSURANCE, financeCode = None, pageNo = p\<rparr> ([], ()))))"
  note t = pageNo_default_and_passthrough
    [of "KoreaFssFinlifeService_new example_env"
        "constant_server (JObject [(''result'', example_success_result)])"
        "\<lparr>groupCode = INSURANCE, financeCode = None, pageNo = None\<rparr>" "()" 3]
  from t have
    "map (\<lambda>cfg. (map_of (params cfg) ''pageNo'', map_of (serialized_params cfg) ''pageNo''))
       (sent None) = [(Some (JNumber 1), Some (JNumber 1))]"
    and
    "map (\<lambda>cfg. (map_of (params cfg) ''pageNo'', map_of (serialized_params cfg) ''pageNo''))
       (sent (Some 3)) = [(Some (JNumber 3), Some (JNumber 3))]"
    by (simp_all add: sent_def)
  then have "map (\<lambda>cfg. map_of (params cfg) ''pageNo'') (sent None) = [Some (JNumber 1)]"
    and "map (\<lambda>cfg. map_of (params cfg) ''pageNo'') (sent (Some 3)) = [Some (JNumber 3)]"
    by (auto simp: map_eq_Cons_conv)
  then show ?thesis
    by (simp add: sent_def)
qed

text \<open>
  Claim C5. Run any number of calls of \<^verbatim>\<open>getFinancialCompanies\<close>, one after the other,
  on a service constructed in environment \<open>env\<close>, over any transport, and record every
  request the transport is handed. There is one request per call, and in each the
  parameter \<^verbatim>\<open>auth\<close> is the value \<^verbatim>\<open>FSS_OPEN_API_KEY\<close> had in \<open>env\<close> when the
  service was constructed; the calls take no environment, so nothing read later can
  change it. When the variable was set to \<open>key\<close>, the serialised query of each request
  carries \<^verbatim>\<open>auth=key\<close>. The parameter comes from the defaults of the instance, not from
  the parameters a call passes.
\<close>

theorem auth_on_every_request:
  assumes "sent = fst (snd (consecutive_calls (KoreaFssFinlifeService_new env)
                              (recording adapter) calls ([], w)))"
  shows "length sent = length calls \<and>
         (\<forall>cfg \<in> set sent.
            map_of (params cfg) ''auth'' = Some (env_get env ''FSS_OPEN_API_KEY'') \<and>
            (\<forall>key. env ''FSS_OPEN_API_KEY'' = Some key \<longrightarrow>
               map_of (serialized_params cfg) ''auth'' = Some (JString key)))"
  unfolding assms consecutive_calls_recording
  by (auto simp: request_auth serialized_auth)

theorem auth_on_every_request_witness:
  "map (\<lambda>cfg. map_of (serialized_params cfg) ''auth'')
     (fst (snd (consecutive_calls (KoreaFssFinlifeService_new example_env)
        (recording (constant_server example_invalid_key_body))
        [\<lparr>groupCode = BANK, financeCode = None, pageNo = None\<rparr>,
         \<lparr>groupCode = INSURANCE, financeCode = Some ''life'', pageNo = Some 2\<rparr>,
         \<lparr>groupCode = BANK, financeCode = None, pageNo = Some 3\<rparr>]
        ([], ()))))
   = [Some (JString ''test-key''), Some (JString ''test-key''), Some (JString ''test-key'')]"
proof -
  define calls where "calls =
        [\<lparr>groupCode = BANK, financeCode = None, pageNo = None\<rparr>,
         \<lparr>groupCode = INSURANCE, financeCode = Some ''life'', pageNo = Some 2\<rparr>,
         \<lparr>groupCode = BANK, financeCode = None, pageNo = Some 3\<rparr>]"
  define sent where "sent = fst (snd (consecutive_calls (KoreaFssFinlifeService_new example_env)
        (recording (constant_server example_invalid_key_body)) calls ([], ())))"
  have key: "example_env ''FSS_OPEN_API_KEY'' = Some ''test-key''"
    by (simp add: example_env_def)
  note t = auth_on_every_request [OF sent_def]
  from t have len: "length sent = length calls"
    by blast
  from t key have all: "\<forall>cfg \<in> set sent.
      map_of (serialized_params cfg) ''auth'' = Some (JString ''test-key'')"
    by blast
  then have "map (\<lambda>cfg. map_of (serialized_params cfg) ''auth'') sent =
      replicate (length sent) (Some (JString ''test-key''))"
    by (simp add: map_replicate_const [symmetric])
  also have "length sent = Suc (Suc (Suc 0))"
    by (simp add: len calls_def)
  finally show ?thesis
    by (simp add: sent_def calls_def del: consecutive_calls.simps)
qed



text \<open>
  Claim C7. The enumeration \<^verbatim>\<open>ApiResponseCode\<close> has exactly ten members, standing for
  ten different strings: \<^verbatim>\<open>"000"\<close> (success), \<^verbatim>\<open>"010"\<close>, \<^verbatim>\<open>"011"\<close>,
  \<^verbatim>\<open>"012"\<close>, \<^verbatim>\<open>"013"\<close> (invalid, suspended, deleted, sample key), \<^verbatim>\<open>"020"\<close>
  (daily limit exceeded), \<^verbatim>\<open>"021"\<close> (address not allowed), \<^verbatim>\<open>"100"\<close>,
  \<^verbatim>\<open>"101"\<close> (missing, malformed parameter) and \<^verbatim>\<open>"900"\<close> (system error), and no
  other.
\<close>

theorem ApiResponseCode_closed_set:
  "range ApiResponseCode_value =
     {''000'', ''010'', ''011'', ''012'', ''013'', ''020'', ''021'', ''100'', ''101'', ''900''} \<and>
   map ApiResponseCode_value
     [SUCCESS, INVALID_AUTH_KEY, SUSPENDED_AUTH_KEY, DELETED_AUTH_KEY, SAMPLE_AUTH_KEY,
      EXCEEDED_DAILY_SEARCH_LIMIT, INVALID_IP, MISSING_REQUEST_PARAMETER,
      INVALID_REQUEST_PARAMETER, SYSTEM_ERROR] =
     [''000'', ''010'', ''011'', ''012'', ''013'', ''020'', ''021'', ''100'', ''101'', ''900''] \<and>
   inj ApiResponseCode_value \<and>
   card (UNIV :: ApiResponseCode set) = 10"
proof -
  have U: "(UNIV :: ApiResponseCode set) = set ApiResponseCode_members"
  proof -
    have "c \<in> set ApiResponseCode_members" for c
      by (cases c) (simp_all add: ApiResponseCode_members_def)
    then show ?thesis by auto
  qed
  have d: "distinct (map ApiResponseCode_value ApiResponseCode_members)"
    by (simp add: ApiResponseCode_members_def)
  have "range ApiResponseCode_value = set (map ApiResponseCode_value ApiResponseCode_members)"
    by (simp add: U)
  then have r: "range ApiResponseCode_value =
     {''000'', ''010'', ''011'', ''012'', ''013'', ''020'', ''021'', ''100'', ''101'', ''900''}"
    by (simp add: ApiResponseCode_members_def)
  have i: "inj ApiResponseCode_value"
    using d unfolding U distinct_map by simp
  have "distinct ApiResponseCode_members"
    using d by (simp add: distinct_map)
  then have "card (set ApiResponseCode_members) = length ApiResponseCode_members"
    by (rule distinct_card)
  also have "length ApiResponseCode_members = 10"
    by (simp add: ApiResponseCode_members_def)
  finally have c: "card (UNIV :: ApiResponseCode set) = 10"
    by (simp only: U)
  from r i c show ?thesis by simp
qed

text \<open>
  Claim C9. When the body of a response is \<^verbatim>\<open>undefined\<close> or \<^verbatim>\<open>null\<close>, or has no
  \<^verbatim>\<open>result\<close> (or a \<^verbatim>\<open>null\<close> one), the guard of the interceptor, which reads with
  optional chaining, finds a value other than \<^verbatim>\<open>"000"\<close> and takes the failure branch;
  there the first argument of the error, \<^verbatim>\<open>response.data.result.err_cd\<close>, is read
  without the guard and throws. The interceptor fails with a \<^verbatim>\<open>TypeError\<close>, never
  with a \<^verbatim>\<open>KoreaFssFinlifeServiceError\<close>.
\<close>

theorem malformed_envelope_TypeError:
  assumes "nullish (data response) \<or> nullish (own_property (data response) ''result'')"
  shows "js_get_opt (js_get_opt (data response) ''result'') ''err_cd''
           \<noteq> JString (ApiResponseCode_value SUCCESS) \<and>
         response_interceptor response = (Inl TypeError :: 'e failure + AxiosResponse) \<and>
         (\<forall>e. response_interceptor response \<noteq> (Inl (ServiceError e) :: 'e failure + AxiosResponse))"
proof -
  have "js_get_opt (js_get_opt (data response) ''result'') ''err_cd'' = JUndefined"
    using assms by (auto simp: js_get_opt_def nullish_def)
  then show ?thesis
    using assms by (simp add: interceptor_malformed)
qed

theorem malformed_envelope_TypeError_witness:
  "response_interceptor
     \<lparr>data = JObject [(''message'', JString ''service unavailable'')],
      config = getFinancialCompanies_request (KoreaFssFinlifeService_new example_env)
                 \<lparr>groupCode = BANK, financeCode = None, pageNo = None\<rparr>\<rparr>
     = (Inl TypeError :: unit failure + AxiosResponse) \<and>
   response_interceptor
     \<lparr>data = JUndefined,
      config = getFinancialCompanies_request (KoreaFssFinlifeService_new example_env)
                 \<lparr>groupCode = BANK, financeCode = None, pageNo = None\<rparr>\<rparr>
     = (Inl TypeError :: unit failure + AxiosResponse)"
proof -
  let ?cfg = "getFinancialCompanies_request (KoreaFssFinlifeService_new example_env)
                 \<lparr>groupCode = BANK, financeCode = None, pageNo = None\<rparr>"
  let ?r1 = "\<lparr>data = JObject [(''message'', JString ''service unavailable'')], config = ?cfg\<rparr>"
  let ?r2 = "\<lparr>data = JUndefined, config = ?cfg\<rparr>"
  have a: "nullish (data ?r1) \<or> nullish (own_property (data ?r1) ''result'')"
    by (simp add: nullish_def)
  have b: "nullish (data ?r2) \<or> nullish (own_property (data ?r2) ''result'')"
    by (simp add: nullish_def)
  show ?thesis
    using malformed_envelope_TypeError [where ?'e = unit, OF a]
      malformed_envelope_TypeError [where ?'e = unit, OF b]
    by simp
qed

text \<open>
  Claim C10. Make one call of \<^verbatim>\<open>getFinancialCompanies\<close> over any transport and record
  what the transport is handed. When \<^verbatim>\<open>financeCode\<close> is left out, the one request
  handed over binds the parameter \<^verbatim>\<open>financeCd\<close> to \<^verbatim>\<open>undefined\<close>, and its
  serialised query has no \<^verbatim>\<open>financeCd\<close> at all (so no empty string either). Whatever
  the arguments, the one request handed over binds \<^verbatim>\<open>topFinGrpNo\<close> to the string of
  the group code and \<^verbatim>\<open>pageNo\<close> to a number, and both are in the serialised query.
\<close>

theorem financeCd_unbound_when_omitted:
  "(\<exists>cfg. fst (snd (getFinancialCompanies svc (recording adapter)
                        (args\<lparr>financeCode := None\<rparr>) ([], w))) = [cfg] \<and>
      map_of (params cfg) ''financeCd'' = Some JUndefined \<and>
      ''financeCd'' \<notin> fst ` set (serialized_params cfg)) \<and>
   (\<exists>cfg n. fst (snd (getFinancialCompanies svc (recording adapter) args ([], w))) = [cfg] \<and>
      map_of (params cfg) ''topFinGrpNo''
        = Some (JString (FinancialGroupCode_value (groupCode args))) \<and>
      map_of (serialized_params cfg) ''topFinGrpNo''
        = Some (JString (FinancialGroupCode_value (groupCode args))) \<and>
      map_of (params cfg) ''pageNo'' = Some (JNumber n) \<and>
      map_of (serialized_params cfg) ''pageNo'' = Some (JNumber n))"
proof -
  have "map_of (serialized_params (getFinancialCompanies_request svc (args\<lparr>financeCode := None\<rparr>)))
          ''financeCd'' = None"
    by (simp add: map_of_serialized_params distinct_request_params request_financeCd nullish_def)
  then have "''financeCd'' \<notin>
     fst ` set (serialized_params (getFinancialCompanies_request svc (args\<lparr>financeCode := None\<rparr>)))"
    by (simp add: map_of_eq_None_iff)
  then show ?thesis
    by (simp add: getFinancialCompanies_sent map_of_serialized_params distinct_request_params
        request_financeCd request_topFinGrpNo request_pageNo nullish_def)
qed

theorem financeCd_unbound_when_omitted_witness:
  "map (\<lambda>cfg. (map_of (params cfg) ''financeCd'', ''financeCd'' \<in> fst ` set (serialized_params cfg),
               map_of (params cfg) ''topFinGrpNo''))
     (fst (snd (getFinancialCompanies (KoreaFssFinlifeService_new example_env)
        (recording (constant_server (JObject [(''result'', example_success_result)])))
        \<lparr>groupCode = SAVINGS_BANK, financeCode = None, pageNo = None\<rparr> ([], ()))))
   = [(Some JUndefined, False, Some (JString ''030300''))]"
  using financeCd_unbound_when_omitted
    [of "KoreaFssFinlifeService_new example_env"
        "constant_server (JObject [(''result'', example_success_result)])"
        "\<lparr>groupCode = SAVINGS_BANK, financeCode = None, pageNo = None\<rparr>" "()"]
  by auto

section \<open>The claims about the join\<close>

text \<open>
  Claim C3 (amended). Let the company codes of the option list be pairwise different. Then
  the merged list has exactly as many entries as the base list; dropping the field
  \<^verbatim>\<open>options\<close> from the entries gives back the base list, entry for entry and in order
  (so no base record is dropped, repeated, moved or changed); and the \<^verbatim>\<open>options\<close> of
  the entry at position \<open>i\<close> is the option record whose code is that of the base record
  at \<open>i\<close> when the option list has one. When it has none, \<^verbatim>\<open>options\<close> is
  \<^verbatim>\<open>undefined\<close> unless the code of the base record is the name of a member that plain
  objects inherit from \<^verbatim>\<open>Object.prototype\<close>; for such a code \<^verbatim>\<open>options\<close> is that
  inherited member. The claim as first stated promises \<^verbatim>\<open>undefined\<close> for every code
  without a matching option record.
\<close>

theorem bankList_join:
  assumes "distinct (map fin_co_no optionList)"
  shows "length (bankList baseList optionList) = length baseList \<and>
         map FinancialCompany.truncate (bankList baseList optionList) = baseList \<and>
         (\<forall>i < length baseList.
            (\<forall>opt \<in> set optionList.
               fin_co_no opt = fin_co_no (baseList ! i) \<longrightarrow>
                 options (bankList baseList optionList ! i) = Own opt) \<and>
            ((\<forall>opt \<in> set optionList. fin_co_no opt \<noteq> fin_co_no (baseList ! i)) \<longrightarrow>
                 options (bankList baseList optionList ! i) =
                   (if fin_co_no (baseList ! i) \<in> set Object_prototype_names
                    then Inherited (fin_co_no (baseList ! i)) else Undefined)))"
proof -
  have len: "length (bankList baseList optionList) = length baseList"
    by (simp add: bankList_def)
  have base: "map FinancialCompany.truncate (bankList baseList optionList) = baseList"
    by (simp add: bankList_def truncate_extend o_def)
  have opt: "options (bankList baseList optionList ! i) =
               object_get (keyBy optionList fin_co_no) (fin_co_no (baseList ! i))"
    if "i < length baseList" for i
    using that by (simp add: bankList_def options_extend)
  have some: "options (bankList baseList optionList ! i) = Own opt"
    if "i < length baseList" and "opt \<in> set optionList"
      and "fin_co_no opt = fin_co_no (baseList ! i)" for i opt
  proof -
    have "map_of (keyBy optionList fin_co_no) (fin_co_no (baseList ! i)) = Some opt"
      using that(2,3) by (simp add: map_of_keyBy_distinct [OF assms])
    then show ?thesis
      by (simp add: opt [OF that(1)] object_get_def)
  qed
  have none: "options (bankList baseList optionList ! i) =
                (if fin_co_no (baseList ! i) \<in> set Object_prototype_names
                 then Inherited (fin_co_no (baseList ! i)) else Undefined)"
    if "i < length baseList"
      and "\<forall>opt \<in> set optionList. fin_co_no opt \<noteq> fin_co_no (baseList ! i)" for i
  proof -
    have "map_of (keyBy optionList fin_co_no) (fin_co_no (baseList ! i)) = None"
    proof (cases "map_of (keyBy optionList fin_co_no) (fin_co_no (baseList ! i))")
      case None
      then show ?thesis .
    next
      case (Some x)
      then have "x \<in> set optionList \<and> fin_co_no x = fin_co_no (baseList ! i)"
        by (simp add: map_of_keyBy_distinct [OF assms])
      with that(2) show ?thesis by blast
    qed
    then show ?thesis
      by (simp add: opt [OF that(1)] object_get_def)
  qed
  from len base some none show ?thesis by blast
qed

theorem bankList_join_witness:
  "bankList
     [example_base ''0010001'' ''A Bank'', example_base ''0010002'' ''B Bank'']
     [example_option ''0010001'' ''01'', example_option ''0019999'' ''02'']
   = [\<lparr>dcls_month = ''202401'', fin_co_no = ''0010001'', kor_co_nm = ''A Bank'',
        dcls_chrg_man = ''clerk'', homp_url = ''https://example.org'', cal_tel = ''15880000'',
        options = Own (example_option ''0010001'' ''01'')\<rparr>,
      \<lparr>dcls_month = ''202401'', fin_co_no = ''0010002'', kor_co_nm = ''B Bank'',
        dcls_chrg_man = ''clerk'', homp_url = ''https://example.org'', cal_tel = ''15880000'',
        options = Undefined\<rparr>]"
proof -
  define baseList where
    "baseList = [example_base ''0010001'' ''A Bank'', example_base ''0010002'' ''B Bank'']"
  define optionList where
    "optionList = [example_option ''0010001'' ''01'', example_option ''0019999'' ''02'']"
  define merged where "merged = bankList baseList optionList"
  have d: "distinct (map fin_co_no optionList)"
    by (simp add: optionList_def example_option_def)
  note t = bankList_join [OF d, of baseList, folded merged_def]
  from t have len: "length merged = 2"
    by (simp add: baseList_def)
  from t have base: "map FinancialCompany.truncate merged = baseList"
    by blast
  have o0: "options (merged ! 0) = Own (example_option ''0010001'' ''01'')"
  proof -
    have "example_option ''0010001'' ''01'' \<in> set optionList"
      and "fin_co_no (example_option ''0010001'' ''01'') = fin_co_no (baseList ! 0)"
      and "0 < length baseList"
      by (simp_all add: optionList_def baseList_def example_option_def example_base_def)
    with t show ?thesis by blast
  qed
  have o1: "options (merged ! 1) = Undefined"
  proof -
    have a: "\<forall>opt \<in> set optionList. fin_co_no opt \<noteq> fin_co_no (baseList ! 1)"
      and b: "1 < length baseList"
      and c: "fin_co_no (baseList ! 1) \<notin> set Object_prototype_names"
      by (simp_all add: optionList_def baseList_def example_option_def example_base_def
          Object_prototype_names_def)
    from t a b have "options (merged ! 1) =
        (if fin_co_no (baseList ! 1) \<in> set Object_prototype_names
         then Inherited (fin_co_no (baseList ! 1)) else Undefined)"
      by blast
    with c show ?thesis by simp
  qed
  obtain e0 e1 where m: "merged = [e0, e1]"
    using len by (auto simp: length_Suc_conv numeral_2_eq_2)
  have "e0 = FinancialCompany.extend (FinancialCompany.truncate e0) (BankEntry.fields (options e0))"
    and "e1 = FinancialCompany.extend (FinancialCompany.truncate e1) (BankEntry.fields (options e1))"
    by (cases e0, simp add: FinancialCompany.defs CompanyKey.defs BankEntry.defs,
        cases e1, simp add: FinancialCompany.defs CompanyKey.defs BankEntry.defs)
  moreover have "FinancialCompany.truncate e0 = example_base ''0010001'' ''A Bank''"
    and "FinancialCompany.truncate e1 = example_base ''0010002'' ''B Bank''"
    using base by (simp_all add: m baseList_def)
  moreover have "options e0 = Own (example_option ''0010001'' ''01'')" and "options e1 = Undefined"
    using o0 o1 by (simp_all add: m)
  ultimately have "merged =
      [FinancialCompany.extend (example_base ''0010001'' ''A Bank'')
         (BankEntry.fields (Own (example_option ''0010001'' ''01''))),
       FinancialCompany.extend (example_base ''0010002'' ''B Bank'') (BankEntry.fields Undefined)]"
    by (simp add: m)
  then show ?thesis
    by (simp add: merged_def baseList_def optionList_def example_base_def
        FinancialCompany.defs CompanyKey.defs BankEntry.defs)
qed

text \<open>
  The input that refutes the statement without the exception: one base record whose code
  is \<^verbatim>\<open>constructor\<close> and one option record of another code. The codes of the option
  list are pairwise different and none is the base record's, yet the \<^verbatim>\<open>options\<close> of
  the merged entry is the inherited \<^verbatim>\<open>constructor\<close>, not \<^verbatim>\<open>undefined\<close>.
\<close>

theorem bankList_join_counterexample:
  "distinct (map fin_co_no [example_option ''0010001'' ''01'']) \<and>
   ''constructor'' \<notin> set (map fin_co_no [example_option ''0010001'' ''01'']) \<and>
   fin_co_no (example_base ''constructor'' ''A Bank'') = ''constructor'' \<and>
   options (bankList [example_base ''constructor'' ''A Bank'']
                     [example_option ''0010001'' ''01''] ! 0) = Inherited ''constructor'' \<and>
   options (bankList [example_base ''constructor'' ''A Bank'']
                     [example_option ''0010001'' ''01''] ! 0) \<noteq> Undefined"
  by (simp add: bankList_def keyBy_def object_get_def Object_prototype_names_def
      example_base_def example_option_def options_extend)

text \<open>
  Claim C8. The object \<^verbatim>\<open>keyBy(optionList, "fin_co_no")\<close> has every key once, and under
  a company code it holds the last record of the option list, in list order, that has
  this code (nothing when no record has it). With two or more records of one code the
  last one wins.
\<close>

theorem keyBy_last_write_wins:
  fixes optionList :: "FinancialCompanyOptions list"
  shows "distinct (map fst (keyBy optionList fin_co_no)) \<and>
         map_of (keyBy optionList fin_co_no) c =
           (if filter (\<lambda>opt. fin_co_no opt = c) optionList = [] then None
            else Some (last (filter (\<lambda>opt. fin_co_no opt = c) optionList)))"
  by (simp add: distinct_keyBy map_of_keyBy)

theorem keyBy_last_write_wins_witness:
  "map_of (keyBy [example_option ''0010001'' ''01'', example_option ''0010002'' ''02'',
                  example_option ''0010001'' ''03''] fin_co_no) ''0010001''
     = Some (example_option ''0010001'' ''03'') \<and>
   map fst (keyBy [example_option ''0010001'' ''01'', example_option ''0010002'' ''02'',
                   example_option ''0010001'' ''03''] fin_co_no)
     = [''0010001'', ''0010002'']"
proof -
  have keys: "map fst (keyBy [example_option ''0010001'' ''01'', example_option ''0010002'' ''02'',
                   example_option ''0010001'' ''03''] fin_co_no) = [''0010001'', ''0010002'']"
    by (simp add: keyBy_def example_option_def)
  show ?thesis
    using keyBy_last_write_wins
      [of "[example_option ''0010001'' ''01'', example_option ''0010002'' ''02'',
            example_option ''0010001'' ''03'']" "''0010001''"]
    by (simp add: keys) (simp add: example_option_def)
qed


end
